theory Spec2Isabelle
  imports Complex_Main
begin

section \<open>Arrays, element types and the store\<close>

text \<open>
  The B-spline transformation of \<^verbatim>\<open>gryds/transformers/bspline.py\<close> works on NumPy
  arrays. An array is modelled by its shape, its element type and its values in row-major
  order. Values are real numbers: arithmetic is exact, the rounding of the floating-point
  formats is not part of the model.
\<close>

datatype dtype = Float16 | Float32 | Float64

record ndarray =
  shape :: "nat list"
  dtype :: dtype
  data :: "real list"

text \<open>
  NumPy's limit on the number of axes of an array: 64 since NumPy 2.0, 32 before. The
  larger one is taken, so that the arrays of both are covered.
\<close>

definition NPY_MAXDIMS :: nat where
  "NPY_MAXDIMS = 64"

definition ndarray_ok :: "ndarray \<Rightarrow> bool" where
  "ndarray_ok a = (length (shape a) \<le> NPY_MAXDIMS \<and> length (data a) = prod_list (shape a))"

text \<open>
  Exceptions are values. \<open>ValueError\<close> carries its message. \<open>ConfigError\<close> and
  \<open>OutsideContract\<close> come only from the sampling primitive; \<open>DanglingReference\<close>
  marks a reference to no object, which no Python caller can produce.
\<close>

datatype error =
    ValueError string
  | IndexError
  | TypeError
  | AssertionError
  | ConfigError
  | OutsideContract
  | DanglingReference

text \<open>
  Arrays are objects: the store is the list of the arrays allocated so far, and a
  reference is a position in it. Allocation appends, so a new array never shares its
  reference with an older one.
\<close>

type_synonym addr = nat
type_synonym heap = "ndarray list"

definition lookup :: "heap \<Rightarrow> addr \<Rightarrow> ndarray option" where
  "lookup h a = (if a < length h then Some (h ! a) else None)"

definition alloc :: "heap \<Rightarrow> ndarray \<Rightarrow> addr \<times> heap" where
  "alloc h x = (length h, h @ [x])"

text \<open>
  \<^verbatim>\<open>np.array(grid, dtype=DTYPE)\<close>: NumPy copies by default, so the result is a
  new array holding the values of \<open>grid\<close> in the requested element type.
\<close>

definition np_array :: "dtype \<Rightarrow> heap \<Rightarrow> addr \<Rightarrow> error + (addr \<times> heap)" where
  "np_array DT h a =
     (case lookup h a of
        None \<Rightarrow> Inl DanglingReference
      | Some g \<Rightarrow> Inr (alloc h (g\<lparr>dtype := DT\<rparr>)))"

text \<open>\<^verbatim>\<open>len(a)\<close> of an array is the length of its first axis; an array of rank 0 has none.\<close>

definition len_ndarray :: "ndarray \<Rightarrow> error + nat" where
  "len_ndarray a = (case shape a of [] \<Rightarrow> Inl TypeError | n # _ \<Rightarrow> Inr n)"

section \<open>Python integers\<close>

text \<open>
  The constructor compares two integers with \<^verbatim>\<open>is not\<close>, the identity of objects.
  CPython keeps one object for each integer from -5 to 256, and makes a new object for any
  other result: two integers computed separately are the same object exactly when they
  are equal and inside that range.
\<close>

definition py_int_is :: "int \<Rightarrow> int \<Rightarrow> bool" where
  "py_int_is a b = (a = b \<and> - 5 \<le> a \<and> a \<le> 256)"

text \<open>\<^verbatim>\<open>str\<close> of an integer, as \<^verbatim>\<open>'{}'.format\<close> prints it.\<close>

fun str_nat :: "nat \<Rightarrow> string" where
  "str_nat n =
     (if n < 10 then [''0123456789'' ! n]
      else str_nat (n div 10) @ [''0123456789'' ! (n mod 10)])"

definition str_int :: "int \<Rightarrow> string" where
  "str_int i = (if i < 0 then CHR ''-'' # str_nat (nat (- i)) else str_nat (nat i))"

section \<open>The transformation object\<close>

text \<open>
  \<open>Transformation\<close> is the base class, \<open>BSplineTransformation\<close> adds the spline
  order, the boundary mode and the constant fill value. \<open>parameters\<close> is a reference
  to the array of control points.
\<close>

record Transformation =
  ndim :: int
  parameters :: addr

record BSplineTransformation = Transformation +
  bspline_order :: int
  mode :: string
  cval :: real

text \<open>
  Modelled from the spec: the initializer of the base class \<open>Transformation\<close>, whose
  module is not among the sources. It accepts \<open>(ndim, parameters)\<close> and stores them
  for later use; the attributes the subclass has set already are kept.
\<close>

definition Transformation_init :: "int \<Rightarrow> addr \<Rightarrow> 'a \<Rightarrow> 'a Transformation_scheme" where
  "Transformation_init nd prm rest = \<lparr>ndim = nd, parameters = prm, \<dots> = rest\<rparr>"

definition first_axis_message :: "int \<Rightarrow> string" where
  "first_axis_message k =
     ''First axis of grid should be equal to transform's ndim '' @ str_int k @ ''.''"

text \<open>
  \<^verbatim>\<open>BSplineTransformation.__init__(self, grid, order, mode, cval)\<close>. \<open>DT\<close> is the
  constant \<^verbatim>\<open>DTYPE\<close> of the configuration module, which is not among the sources.
  \<^verbatim>\<open>grid.shape[0]\<close> is evaluated first and raises \<open>IndexError\<close> on an array of rank
  0.
\<close>

definition BSplineTransformation_init ::
  "dtype \<Rightarrow> heap \<Rightarrow> addr \<Rightarrow> int \<Rightarrow> string \<Rightarrow> real \<Rightarrow> error + (BSplineTransformation \<times> heap)" where
  "BSplineTransformation_init DT h grid order md cv =
     (case np_array DT h grid of
        Inl e \<Rightarrow> Inl e
      | Inr (p, h') \<Rightarrow>
          (case lookup h' p of
             None \<Rightarrow> Inl DanglingReference
           | Some g \<Rightarrow>
               (case shape g of
                  [] \<Rightarrow> Inl IndexError
                | n # sp \<Rightarrow>
                    if \<not> py_int_is (int n) (int (length (shape g)) - 1)
                    then Inl (ValueError (first_axis_message (int (length (shape g)) - 1)))
                    else
                      (case len_ndarray g of
                         Inl e \<Rightarrow> Inl e
                       | Inr l \<Rightarrow>
                           Inr (Transformation_init (int l) p
                                  (BSplineTransformation.fields order md cv), h')))))"

section \<open>Batches of points\<close>

text \<open>
  A batch of points is an array of rank 2 with one row for each axis and one column for
  each point, as \<^verbatim>\<open>_transform_points\<close> receives it. The number of columns is kept
  beside the rows, since an array without rows still has columns.
\<close>

record array2 =
  a_dtype :: dtype
  ncols :: nat
  rows :: "real list list"

definition array2_ok :: "array2 \<Rightarrow> bool" where
  "array2_ok A = list_all (\<lambda>r. length r = ncols A) (rows A)"

text \<open>NumPy's type of the result of an operation on two floating-point arrays.\<close>

fun result_type :: "dtype \<Rightarrow> dtype \<Rightarrow> dtype" where
  "result_type Float64 _ = Float64"
| "result_type _ Float64 = Float64"
| "result_type Float32 _ = Float32"
| "result_type _ Float32 = Float32"
| "result_type Float16 Float16 = Float16"

text \<open>
  NumPy's broadcasting of two arrays of rank 2: along each axis the lengths are equal, or
  one of them is 1 and that array is repeated; any other pair of lengths raises
  \<open>ValueError\<close>.
\<close>

definition bc_dim :: "nat \<Rightarrow> nat \<Rightarrow> nat option" where
  "bc_dim m n =
     (if m = n then Some m else if m = 1 then Some n else if n = 1 then Some m else None)"

definition at2 :: "array2 \<Rightarrow> nat \<Rightarrow> nat \<Rightarrow> real" where
  "at2 A i j =
     rows A ! (if length (rows A) = 1 then 0 else i) ! (if ncols A = 1 then 0 else j)"

definition broadcast2 :: "(real \<Rightarrow> real \<Rightarrow> real) \<Rightarrow> array2 \<Rightarrow> array2 \<Rightarrow> error + array2" where
  "broadcast2 f A B =
     (case bc_dim (length (rows A)) (length (rows B)) of
        None \<Rightarrow> Inl (ValueError ''operands could not be broadcast together'')
      | Some r \<Rightarrow>
          (case bc_dim (ncols A) (ncols B) of
             None \<Rightarrow> Inl (ValueError ''operands could not be broadcast together'')
           | Some c \<Rightarrow>
               Inr \<lparr>a_dtype = result_type (a_dtype A) (a_dtype B), ncols = c,
                    rows = map (\<lambda>i. map (\<lambda>j. f (at2 A i j) (at2 B i j)) [0..<c]) [0..<r]\<rparr>))"

section \<open>The forward mapping\<close>

text \<open>
  \<^verbatim>\<open>(np.array(self.parameters.shape[1:], dtype=DTYPE) - 1)[:, None]\<close>: a column with
  one entry for each spatial axis of the grid, the length of the axis less one. The slice
  of an empty shape is empty, as \<open>tl\<close> is.
\<close>

definition scale_column :: "dtype \<Rightarrow> ndarray \<Rightarrow> array2" where
  "scale_column DT prm =
     \<lparr>a_dtype = DT, ncols = 1, rows = map (\<lambda>n. [real n - 1]) (tl (shape prm))\<rparr>"

text \<open>Lines 70 and 71 of the source: \<open>scaled_points\<close>.\<close>

definition scaled_points :: "dtype \<Rightarrow> ndarray \<Rightarrow> array2 \<Rightarrow> error + array2" where
  "scaled_points DT prm points = broadcast2 (*) points (scale_column DT prm)"

text \<open>
  \<^verbatim>\<open>for bspline_component in self.parameters\<close>: the sub-arrays along the first axis,
  in order. An array of rank 0 cannot be iterated.
\<close>

definition components :: "ndarray \<Rightarrow> error + ndarray list" where
  "components prm =
     (case shape prm of
        [] \<Rightarrow> Inl TypeError
      | n # sp \<Rightarrow>
          Inr (map (\<lambda>i. \<lparr>shape = sp, dtype = dtype prm,
                         data = take (prod_list sp) (drop (i * prod_list sp) (data prm))\<rparr>)
                 [0..<n]))"

text \<open>
  The sampling primitive \<^verbatim>\<open>scipy.ndimage.map_coordinates\<close> belongs to a library
  outside the repository. The mapping takes it as a parameter: a function of the sampled
  array, the coordinates (one column for each point), the spline order, the boundary mode
  and the fill value, which gives one value for each point or raises.
\<close>

type_synonym sampler = "ndarray \<Rightarrow> array2 \<Rightarrow> int \<Rightarrow> string \<Rightarrow> real \<Rightarrow> error + real list"

text \<open>The loop of lines 75 to 81: the first call that raises ends it.\<close>

fun sample_components ::
  "sampler \<Rightarrow> ndarray list \<Rightarrow> array2 \<Rightarrow> int \<Rightarrow> string \<Rightarrow> real \<Rightarrow> error + real list list" where
  "sample_components mc [] S k md cv = Inr []"
| "sample_components mc (b # bs) S k md cv =
     (case mc b S k md cv of
        Inl e \<Rightarrow> Inl e
      | Inr d \<Rightarrow>
          (case sample_components mc bs S k md cv of
             Inl e \<Rightarrow> Inl e
           | Inr ds \<Rightarrow> Inr (d # ds)))"

text \<open>
  \<^verbatim>\<open>np.array(displacement)\<close>. The sampled arrays have the element type \<open>dt\<close> of the
  array they were sampled from. The empty list gives an array of shape (0,) and of double
  precision, which broadcasts as one row without columns; rows of different lengths are
  refused.
\<close>

definition np_array_rows :: "dtype \<Rightarrow> real list list \<Rightarrow> error + array2" where
  "np_array_rows dt ds =
     (case ds of
        [] \<Rightarrow> Inr \<lparr>a_dtype = Float64, ncols = 0, rows = [[]]\<rparr>
      | d # _ \<Rightarrow>
          if list_all (\<lambda>x. length x = length d) ds
          then Inr \<lparr>a_dtype = dt, ncols = length d, rows = ds\<rparr>
          else Inl (ValueError ''inhomogeneous shape''))"

text \<open>
  \<^verbatim>\<open>BSplineTransformation._transform_points(self, points)\<close>, the spec's mapPoints.
  The two \<^verbatim>\<open>assert\<close> statements raise \<open>AssertionError\<close> (the spec's
  PrecisionError), as they do unless the interpreter runs with assertions switched off.
\<close>

definition transform_points ::
  "dtype \<Rightarrow> sampler \<Rightarrow> heap \<Rightarrow> BSplineTransformation \<Rightarrow> array2 \<Rightarrow> error + array2" where
  "transform_points DT mc h self points =
     (if a_dtype points \<noteq> DT then Inl AssertionError
      else
        (case lookup h (parameters self) of
           None \<Rightarrow> Inl DanglingReference
         | Some prm \<Rightarrow>
             (case scaled_points DT prm points of
                Inl e \<Rightarrow> Inl e
              | Inr S \<Rightarrow>
                  (case components prm of
                     Inl e \<Rightarrow> Inl e
                   | Inr bs \<Rightarrow>
                       (case sample_components mc bs S
                               (bspline_order self) (mode self) (cval self) of
                          Inl e \<Rightarrow> Inl e
                        | Inr displacement \<Rightarrow>
                            (case np_array_rows (dtype prm) displacement of
                               Inl e \<Rightarrow> Inl e
                             | Inr disp \<Rightarrow>
                                 (case broadcast2 (+) points disp of
                                    Inl e \<Rightarrow> Inl e
                                  | Inr result \<Rightarrow>
                                      if a_dtype result \<noteq> DT then Inl AssertionError
                                      else Inr result)))))))"

text \<open>
  A caller that maps one batch after the other. \<^verbatim>\<open>_transform_points\<close> assigns to no
  attribute of \<open>self\<close> and to no element of an array: every array it makes is new. So
  the store and the object go from one call to the next as they are.
\<close>

fun map_batches ::
  "dtype \<Rightarrow> sampler \<Rightarrow> heap \<times> BSplineTransformation \<Rightarrow> array2 list \<Rightarrow>
     (error + array2) list \<times> (heap \<times> BSplineTransformation)" where
  "map_batches DT mc (h, self) [] = ([], (h, self))"
| "map_batches DT mc (h, self) (P # Ps) =
     (let r = transform_points DT mc h self P;
          (rs, st) = map_batches DT mc (h, self) Ps
      in (r # rs, st))"

text \<open>
  The format of the parameters that the class documents: an array of the fixed element
  type and of shape \<open>ndim x N1 x ... x Nndim\<close>.
\<close>

definition transform_ok :: "dtype \<Rightarrow> heap \<Rightarrow> BSplineTransformation \<Rightarrow> bool" where
  "transform_ok DT h self =
     (case lookup h (parameters self) of
        None \<Rightarrow> False
      | Some prm \<Rightarrow>
          dtype prm = DT \<and>
          (case shape prm of
             [] \<Rightarrow> False
           | n # sp \<Rightarrow> ndim self = int n \<and> length sp = n))"

section \<open>The sampling primitive of the spec, for the orders 0 and 1\<close>

definition boundary_modes :: "string list" where
  "boundary_modes = [''constant'', ''nearest'', ''mirror'', ''reflect'', ''wrap'']"

text \<open>
  Modelled from the spec: the virtual samples beyond the extent of an axis whose last
  index is \<open>m\<close> (an axis of \<open>m + 1\<close> nodes, so never an empty one). \<open>mirror\<close>
  reflects without repeating the edge sample, \<open>reflect\<close> repeats it, \<open>nearest\<close>
  clamps to the edge, \<open>wrap\<close> is periodic, and \<open>constant\<close> has no stored sample
  there (\<open>None\<close>: the fill value is used).
\<close>

definition extend_index :: "string \<Rightarrow> nat \<Rightarrow> int \<Rightarrow> nat option" where
  "extend_index md m k =
     (if md = ''nearest'' then Some (nat (max 0 (min (int m) k)))
      else if md = ''wrap'' then Some (nat (k mod (int m + 1)))
      else if md = ''reflect'' then
        Some (nat (if k mod (2 * int m + 2) \<le> int m then k mod (2 * int m + 2)
                   else 2 * int m + 1 - k mod (2 * int m + 2)))
      else if md = ''mirror'' then
        (if m = 0 then Some 0
         else Some (nat (if k mod (2 * int m) \<le> int m then k mod (2 * int m)
                         else 2 * int m - k mod (2 * int m))))
      else if 0 \<le> k \<and> k \<le> int m then Some (nat k)
      else None)"

text \<open>
  Modelled from the spec: the value at one query position \<open>q\<close> (in index units) of the
  array of shape \<open>sh\<close> and values \<open>dat\<close>. Order 0 takes the nearest node, a tie
  going to the lower index; any other order is read as order 1, the tensor product of
  linear interpolation between the two neighbouring nodes, which takes the stored value at
  a node. Where the spec gives no value the answer is \<open>None\<close>: an array with an empty
  axis, values that do not fill the shape, and a query that is not one coordinate for
  each axis.
\<close>

fun sample_at ::
  "string \<Rightarrow> real \<Rightarrow> int \<Rightarrow> nat list \<Rightarrow> real list \<Rightarrow> real list \<Rightarrow> real option" where
  "sample_at md cv k [] dat [] = (case dat of [v] \<Rightarrow> Some v | _ \<Rightarrow> None)"
| "sample_at md cv k [] dat (x # q) = None"
| "sample_at md cv k (n # sh) dat [] = None"
| "sample_at md cv k (n # sh) dat (x # q) =
     (if n = 0 then None
      else if k = 0 then
        (case extend_index md (n - 1) \<lceil>x - 1 / 2\<rceil> of
           None \<Rightarrow> Some cv
         | Some j \<Rightarrow>
             sample_at md cv k sh (take (prod_list sh) (drop (j * prod_list sh) dat)) q)
      else
        (case (case extend_index md (n - 1) \<lfloor>x\<rfloor> of
                 None \<Rightarrow> Some cv
               | Some j \<Rightarrow>
                   sample_at md cv k sh
                     (take (prod_list sh) (drop (j * prod_list sh) dat)) q) of
           None \<Rightarrow> None
         | Some lo \<Rightarrow>
             (case (case extend_index md (n - 1) (\<lfloor>x\<rfloor> + 1) of
                      None \<Rightarrow> Some cv
                    | Some j \<Rightarrow>
                        sample_at md cv k sh
                          (take (prod_list sh) (drop (j * prod_list sh) dat)) q) of
                None \<Rightarrow> None
              | Some hi \<Rightarrow>
                  Some ((1 - (x - of_int \<lfloor>x\<rfloor>)) * lo + (x - of_int \<lfloor>x\<rfloor>) * hi))))"

definition column :: "array2 \<Rightarrow> nat \<Rightarrow> real list" where
  "column S j = map (\<lambda>r. r ! j) (rows S)"

text \<open>
  Modelled from the spec: the spline-evaluation primitive, which the library supplies and
  the sources do not contain, for the orders 0 and 1 only, the orders whose values the
  spec gives in closed form. A negative order and an unsupported boundary mode fail with
  \<open>ConfigError\<close>. The orders above 1 need the fit of a spline and are not covered:
  the answer there is \<open>OutsideContract\<close>, as it is wherever \<open>sample_at\<close> has no
  value. Statements about every order take the primitive as a parameter instead.
\<close>

definition map_coordinates_order01 :: sampler where
  "map_coordinates_order01 A S k md cv =
     (if k < 0 then Inl ConfigError
      else if md \<notin> set boundary_modes then Inl ConfigError
      else if 1 < k then Inl OutsideContract
      else if length (rows S) \<noteq> length (shape A) then Inl OutsideContract
      else
        (case those (map (\<lambda>j. sample_at md cv k (shape A) (data A) (column S j))
                       [0..<ncols S]) of
           None \<Rightarrow> Inl OutsideContract
         | Some vs \<Rightarrow> Inr vs))"



text \<open>\<^verbatim>\<open>sub in msg\<close> on strings: \<open>sub\<close> occurs in \<open>msg\<close>.\<close>

fun starts_with :: "string \<Rightarrow> string \<Rightarrow> bool" where
  "starts_with s [] = True"
| "starts_with [] (c # sub) = False"
| "starts_with (d # s) (c # sub) = (d = c \<and> starts_with s sub)"

fun contains :: "string \<Rightarrow> string \<Rightarrow> bool" where
  "contains [] sub = (sub = [])"
| "contains (d # s) sub = (starts_with (d # s) sub \<or> contains s sub)"

section \<open>Example inputs\<close>

text \<open>
  The scenario of the spec: a grid of shape (2, 3, 3) whose displacement is 0.1 along
  axis 0 and -0.1 along axis 1 everywhere, order 1, mode \<open>mirror\<close>; the transform
  that construction makes of it, the store after construction, and the query point
  (0.5, 0.5).
\<close>

definition scenario_grid :: ndarray where
  "scenario_grid =
     \<lparr>shape = [2, 3, 3], dtype = Float64, data = replicate 9 (1 / 10) @ replicate 9 (- 1 / 10)\<rparr>"

definition scenario_transform :: BSplineTransformation where
  "scenario_transform =
     \<lparr>ndim = 2, parameters = 1, bspline_order = 1, mode = ''mirror'', cval = 0\<rparr>"

definition scenario_heap :: "dtype \<Rightarrow> heap" where
  "scenario_heap DT = [scenario_grid, scenario_grid\<lparr>dtype := DT\<rparr>]"

definition scenario_point :: "dtype \<Rightarrow> array2" where
  "scenario_point DT = \<lparr>a_dtype = DT, ncols = 1, rows = [[1 / 2], [1 / 2]]\<rparr>"

text \<open>A grid of zeros of shape (n, 3, 3): well-shaped for \<open>n = 2\<close> only.\<close>

definition wide_grid :: "nat \<Rightarrow> ndarray" where
  "wide_grid n = \<lparr>shape = [n, 3, 3], dtype = Float64, data = replicate (n * 9) 0\<rparr>"





text \<open>
  The grid of shape (0,), the transform without axes that construction makes of it with
  the default order and fill value and a given boundary mode, the store after construction
  in the precision \<open>DT\<close>, and a batch of \<open>n\<close> points without coordinates.
\<close>

definition empty_grid :: ndarray where
  "empty_grid = \<lparr>shape = [0], dtype = Float64, data = []\<rparr>"

definition empty_transform :: "string \<Rightarrow> BSplineTransformation" where
  "empty_transform md =
     \<lparr>ndim = 0, parameters = 1, bspline_order = 3, mode = md, cval = 0\<rparr>"

definition empty_heap :: "dtype \<Rightarrow> heap" where
  "empty_heap DT = [empty_grid, empty_grid\<lparr>dtype := DT\<rparr>]"

definition no_axes_batch :: "dtype \<Rightarrow> nat \<Rightarrow> array2" where
  "no_axes_batch DT n = \<lparr>a_dtype = DT, ncols = n, rows = []\<rparr>"


section \<open>The store and construction\<close>

lemma lookup_alloc_new: "lookup (h @ [x]) (length h) = Some x"
  by (simp add: lookup_def)

lemma lookup_Some_less: "lookup h a = Some g \<Longrightarrow> a < length h"
  by (simp add: lookup_def split: if_splits)

text \<open>Construction, once the caller's grid is known to be the array \<open>g\<close>.\<close>

lemma init_eq:
  assumes "lookup h a = Some g"
  shows "BSplineTransformation_init DT h a ord md cv =
     (case shape g of
        [] \<Rightarrow> Inl IndexError
      | n # sp \<Rightarrow>
          if \<not> py_int_is (int n) (int (length (shape g)) - 1)
          then Inl (ValueError (first_axis_message (int (length (shape g)) - 1)))
          else Inr (\<lparr>ndim = int n, parameters = length h,
                     bspline_order = ord, mode = md, cval = cv\<rparr>, h @ [g\<lparr>dtype := DT\<rparr>]))"
  using assms
  by (simp add: BSplineTransformation_init_def np_array_def alloc_def lookup_alloc_new
      len_ndarray_def Transformation_init_def BSplineTransformation.defs Transformation.defs
      split: list.splits)

lemma init_ValueError:
  assumes "lookup h a = Some g"
    and "BSplineTransformation_init DT h a ord md cv = Inl (ValueError msg)"
  shows "msg = first_axis_message (int (length (shape g)) - 1)"
  using assms by (auto simp: init_eq split: list.splits if_splits)

lemma init_Inr:
  assumes "lookup h a = Some g"
    and "BSplineTransformation_init DT h a ord md cv = Inr (T, h')"
  shows "parameters T = length h \<and> h' = h @ [g\<lparr>dtype := DT\<rparr>]"
  using assms by (auto simp: init_eq split: list.splits if_splits)

lemma init_transform_ok:
  assumes "BSplineTransformation_init DT h a ord md cv = Inr (T, h')"
  shows "transform_ok DT h' T \<and> bspline_order T = ord \<and> mode T = md \<and> cval T = cv"
proof (cases "lookup h a")
  case None
  then show ?thesis
    using assms by (simp add: BSplineTransformation_init_def np_array_def)
next
  case (Some g)
  show ?thesis
  proof (cases "shape g")
    case Nil
    then show ?thesis using assms Some by (simp add: init_eq)
  next
    case (Cons n sp)
    then show ?thesis
      using assms Some
      by (auto simp: init_eq transform_ok_def lookup_alloc_new py_int_is_def
          split: if_splits)
  qed
qed

lemma init_config_free:
  "(case BSplineTransformation_init DT h a ord md cv of
      Inl e \<Rightarrow> Inl e | Inr (T, h') \<Rightarrow> Inr (ndim T, parameters T, h')) =
   (case BSplineTransformation_init DT h a ord' md' cv' of
      Inl e \<Rightarrow> Inl e | Inr (T, h') \<Rightarrow> Inr (ndim T, parameters T, h'))"
proof (cases "lookup h a")
  case None
  then show ?thesis
    by (simp add: BSplineTransformation_init_def np_array_def)
next
  case (Some g)
  then show ?thesis
    by (simp add: init_eq split: list.splits)
qed

lemma transform_ok_shape:
  assumes "transform_ok DT h T" and "lookup h (parameters T) = Some prm"
  shows "dtype prm = DT \<and> (\<exists>n sp. shape prm = n # sp \<and> ndim T = int n \<and> length sp = n)"
  using assms by (auto simp: transform_ok_def split: list.splits)

lemma scenario_init:
  "BSplineTransformation_init DT [scenario_grid] 0 1 ''mirror'' 0 =
     Inr (scenario_transform, scenario_heap DT)"
  by (simp add: init_eq lookup_def scenario_grid_def scenario_transform_def scenario_heap_def
      py_int_is_def)

lemma wide_grid_refused:
  "n \<noteq> 2 \<Longrightarrow> BSplineTransformation_init DT [wide_grid n] 0 ord md cv =
     Inl (ValueError (first_axis_message 2))"
  by (simp add: init_eq lookup_def wide_grid_def py_int_is_def)

section \<open>Arrays of rank 2 and the steps of the mapping\<close>

lemma bc_dim_same: "bc_dim n n = Some n"
  by (simp add: bc_dim_def)

lemma at2_nth: "i < length (rows A) \<Longrightarrow> j < ncols A \<Longrightarrow> at2 A i j = rows A ! i ! j"
  by (auto simp: at2_def)


lemma broadcast2_column:
  assumes "length (rows A) = length (rows B)" and "ncols B = 1"
  shows "broadcast2 f A B =
     Inr \<lparr>a_dtype = result_type (a_dtype A) (a_dtype B), ncols = ncols A,
          rows = map (\<lambda>i. map (\<lambda>j. f (rows A ! i ! j) (rows B ! i ! 0)) [0..<ncols A])
                   [0..<length (rows A)]\<rparr>"
proof -
  have r: "bc_dim (length (rows A)) (length (rows B)) = Some (length (rows A))"
    using assms(1) by (simp add: bc_dim_def)
  have c: "bc_dim (ncols A) (ncols B) = Some (ncols A)"
    using assms(2) by (simp add: bc_dim_def)
  have b: "at2 B i j = rows B ! i ! 0" if "i < length (rows A)" for i j
    using that assms by (auto simp: at2_def)
  have "map (\<lambda>i. map (\<lambda>j. f (at2 A i j) (at2 B i j)) [0..<ncols A]) [0..<length (rows A)]
      = map (\<lambda>i. map (\<lambda>j. f (rows A ! i ! j) (rows B ! i ! 0)) [0..<ncols A])
          [0..<length (rows A)]"
    by (simp add: at2_nth b)
  then show ?thesis
    by (simp add: broadcast2_def r c)
qed

lemma broadcast2_same:
  assumes "length (rows A) = length (rows B)" and "ncols A = ncols B"
  shows "broadcast2 f A B =
     Inr \<lparr>a_dtype = result_type (a_dtype A) (a_dtype B), ncols = ncols A,
          rows = map (\<lambda>i. map (\<lambda>j. f (rows A ! i ! j) (rows B ! i ! j)) [0..<ncols A])
                   [0..<length (rows A)]\<rparr>"
  using assms by (simp add: broadcast2_def bc_dim_same at2_nth)

lemma broadcast2_error:
  "broadcast2 f A B = Inl e \<Longrightarrow> e = ValueError ''operands could not be broadcast together''"
  by (auto simp: broadcast2_def split: option.splits)

lemma result_type_same: "result_type dt dt = dt"
  by (cases dt) simp_all

lemma scaled_points_eq:
  assumes "length (rows P) = length (tl (shape prm))"
  shows "scaled_points DT prm P =
     Inr \<lparr>a_dtype = result_type (a_dtype P) DT, ncols = ncols P,
          rows = map (\<lambda>i. map (\<lambda>j. rows P ! i ! j * (real (tl (shape prm) ! i) - 1))
                              [0..<ncols P]) [0..<length (rows P)]\<rparr>"
proof -
  have "broadcast2 (*) P (scale_column DT prm) =
     Inr \<lparr>a_dtype = result_type (a_dtype P) (a_dtype (scale_column DT prm)), ncols = ncols P,
          rows = map (\<lambda>i. map (\<lambda>j. rows P ! i ! j * (rows (scale_column DT prm) ! i ! 0))
                       [0..<ncols P]) [0..<length (rows P)]\<rparr>"
    using assms by (intro broadcast2_column) (simp_all add: scale_column_def)
  moreover have "rows (scale_column DT prm) ! i ! 0 = real (tl (shape prm) ! i) - 1"
    if "i < length (rows P)" for i
    using that assms by (simp add: scale_column_def)
  ultimately show ?thesis
    by (simp add: scaled_points_def scale_column_def)
qed




lemma np_array_rows_eq:
  assumes "ds \<noteq> []" and "\<forall>d\<in>set ds. length d = N"
  shows "np_array_rows dt ds = Inr \<lparr>a_dtype = dt, ncols = N, rows = ds\<rparr>"
  using assms by (cases ds) (auto simp: np_array_rows_def list_all_iff)

lemma sample_components_ok:
  assumes "\<forall>b\<in>set bs. mc b S k md cv = Inr (f b)"
  shows "sample_components mc bs S k md cv = Inr (map f bs)"
  using assms by (induction bs) simp_all

lemma sample_components_cong:
  assumes "\<forall>b\<in>set bs. mc b S k md cv = mc' b S k md cv"
  shows "sample_components mc bs S k md cv = sample_components mc' bs S k md cv"
  using assms by (induction bs) (auto split: sum.splits)

section \<open>The mapping as a whole\<close>

text \<open>The mapping on a well-formed transform, when every sampling call returns.\<close>

lemma transform_points_eq:
  assumes prm: "lookup h (parameters T) = Some prm"
    and shp: "shape prm = n # sp" "length sp = n" "0 < n" and pdt: "dtype prm = DT"
    and dt: "a_dtype P = DT" and nr: "length (rows P) = n"
    and bs: "components prm = Inr bs" and S: "scaled_points DT prm P = Inr S"
    and smp: "\<forall>b\<in>set bs. mc b S (bspline_order T) (mode T) (cval T) = Inr (f b)
                \<and> length (f b) = ncols P"
  shows "transform_points DT mc h T P =
     Inr \<lparr>a_dtype = DT, ncols = ncols P,
          rows = map (\<lambda>i. map (\<lambda>j. rows P ! i ! j + f (bs ! i) ! j) [0..<ncols P]) [0..<n]\<rparr>"
proof -
  have len: "length bs = n"
    using bs shp(1) by (auto simp: components_def)
  have smp': "sample_components mc bs S (bspline_order T) (mode T) (cval T) = Inr (map f bs)"
    using smp by (intro sample_components_ok) simp
  have ne: "map f bs \<noteq> []" using len shp(3) by auto
  have rows: "np_array_rows DT (map f bs) = Inr \<lparr>a_dtype = DT, ncols = ncols P, rows = map f bs\<rparr>"
    using smp by (intro np_array_rows_eq ne) auto
  have add: "broadcast2 (+) P \<lparr>a_dtype = DT, ncols = ncols P, rows = map f bs\<rparr> =
     Inr \<lparr>a_dtype = DT, ncols = ncols P,
          rows = map (\<lambda>i. map (\<lambda>j. rows P ! i ! j + f (bs ! i) ! j) [0..<ncols P]) [0..<n]\<rparr>"
    using nr len dt by (simp add: broadcast2_same result_type_same)
  show ?thesis
    by (simp add: transform_points_def dt prm S bs smp' pdt rows add)
qed

lemma transform_points_reject:
  assumes ok: "transform_ok DT h T" and pos: "0 < ndim T"
    and dt: "a_dtype P = DT" and nr: "int (length (rows P)) = ndim T"
    and rej: "\<forall>A S. mc A S (bspline_order T) (mode T) (cval T) = Inl e"
  shows "transform_points DT mc h T P = Inl e"
proof -
  obtain prm n sp where prm: "lookup h (parameters T) = Some prm"
    and shp: "shape prm = n # sp" "ndim T = int n" "length sp = n"
    using ok by (auto simp: transform_ok_def split: option.splits list.splits)
  have n: "0 < n" "length (rows P) = n" using pos nr shp(2) by simp_all
  obtain S where S: "scaled_points DT prm P = Inr S"
    using scaled_points_eq [of P prm DT] n shp by simp
  obtain b bs where bs: "components prm = Inr (b # bs)"
    using shp(1) n(1) by (cases n) (auto simp: components_def upt_conv_Cons simp del: upt_Suc)
  show ?thesis
    using rej by (simp add: transform_points_def dt prm S bs)
qed

lemma transform_points_no_axes:
  assumes ok: "transform_ok DT h T" and z: "ndim T = 0"
  shows "transform_points DT mc h T P = transform_points DT mc' h T P"
    and "transform_points DT mc h T P \<noteq> Inl ConfigError"
proof -
  obtain prm where prm: "lookup h (parameters T) = Some prm"
    using ok by (auto simp: transform_ok_def split: option.splits)
  obtain n sp where shp: "shape prm = n # sp" "ndim T = int n" "length sp = n"
    using transform_ok_shape [OF ok prm] by blast
  have bs: "components prm = Inr []"
    using shp z by (simp add: components_def)
  have eq: "transform_points DT m h T P =
      (if a_dtype P \<noteq> DT then Inl AssertionError
       else case scaled_points DT prm P of
              Inl e \<Rightarrow> Inl e
            | Inr S \<Rightarrow>
                (case broadcast2 (+) P \<lparr>a_dtype = Float64, ncols = 0, rows = [[]]\<rparr> of
                   Inl e \<Rightarrow> Inl e
                 | Inr result \<Rightarrow>
                     if a_dtype result \<noteq> DT then Inl AssertionError else Inr result))"
    for m :: sampler
    by (simp add: transform_points_def prm bs np_array_rows_def split: sum.splits)
  show "transform_points DT mc h T P = transform_points DT mc' h T P"
    by (simp only: eq)
  show "transform_points DT mc h T P \<noteq> Inl ConfigError"
    unfolding eq [of mc]
    by (auto simp: scaled_points_def split: sum.splits dest: broadcast2_error)
qed

lemma transform_points_frame:
  assumes "lookup h'' (parameters T) = lookup h' (parameters T)"
  shows "transform_points DT mc h'' T P = transform_points DT mc h' T P"
  using assms by (simp add: transform_points_def)

lemma map_batches_eq:
  "map_batches DT mc (h, T) Ps = (map (transform_points DT mc h T) Ps, (h, T))"
  by (induction Ps) simp_all


lemma scenario_lookup:
  "lookup (scenario_heap DT) (parameters scenario_transform) = Some (scenario_grid\<lparr>dtype := DT\<rparr>)"
  by (simp add: scenario_heap_def scenario_transform_def lookup_def)

lemma scenario_components:
  "components (scenario_grid\<lparr>dtype := DT\<rparr>) =
     Inr [\<lparr>shape = [3, 3], dtype = DT, data = replicate 9 (1 / 10)\<rparr>,
          \<lparr>shape = [3, 3], dtype = DT, data = replicate 9 (- 1 / 10)\<rparr>]"
proof -
  have "[0..<2] = [0, Suc 0]" by (simp add: upt_rec)
  then show ?thesis
    by (simp add: components_def scenario_grid_def)
qed

lemma scenario_scaled:
  "scaled_points DT (scenario_grid\<lparr>dtype := DT\<rparr>) (scenario_point DT) =
     Inr \<lparr>a_dtype = DT, ncols = 1, rows = [[1], [1]]\<rparr>"
proof -
  have "[0..<2] = [0, Suc 0]" by (simp add: upt_rec)
  then show ?thesis
    by (simp add: scaled_points_eq scenario_grid_def scenario_point_def result_type_same)
qed

lemma scenario_ok: "transform_ok DT (scenario_heap DT) scenario_transform"
  by (simp add: transform_ok_def scenario_lookup) (simp add: scenario_grid_def scenario_transform_def)


section \<open>The sampling primitive of the spec on a grid of zeros\<close>









section \<open>Occurrence of a string in a message\<close>

lemma starts_with_append: "starts_with (s @ q) s"
  by (induction s) simp_all

lemma contains_starts_with: "starts_with r s \<Longrightarrow> contains (p @ r) s"
proof (induction p)
  case Nil
  then show ?case by (cases r; cases s) simp_all
next
  case (Cons c p)
  then show ?case by simp
qed

lemma contains_middle: "contains (p @ s @ q) s"
  by (simp add: contains_starts_with starts_with_append)

section \<open>The claims\<close>

text \<open>
  Claim C1, as amended. For every grid that has a leading axis (rank \<open>R \<ge> 1\<close>),
  construction fails with \<open>ValueError\<close> (the spec's ShapeError) exactly when the
  length of the leading axis differs from \<open>R - 1\<close>, and when they are equal it succeeds
  and the transform's \<open>ndim\<close> is that length. A grid of rank 0 has no leading axis:
  construction fails there with \<open>IndexError\<close>. The identity test \<^verbatim>\<open>is not\<close>
  of the source agrees with inequality here because the rank of an array is at most
  \<open>NPY_MAXDIMS\<close>.
\<close>

theorem C1_shape_validation:
  assumes "lookup h a = Some g" and "ndarray_ok g"
  shows "(shape g = [] \<longrightarrow> BSplineTransformation_init DT h a ord md cv = Inl IndexError) \<and>
         (shape g \<noteq> [] \<longrightarrow>
            ((\<exists>msg. BSplineTransformation_init DT h a ord md cv = Inl (ValueError msg))
               \<longleftrightarrow> int (hd (shape g)) \<noteq> int (length (shape g)) - 1) \<and>
            (int (hd (shape g)) = int (length (shape g)) - 1 \<longrightarrow>
               (\<exists>T h'. BSplineTransformation_init DT h a ord md cv = Inr (T, h') \<and>
                  ndim T = int (hd (shape g)) \<and> ndim T = int (length (shape g)) - 1)))"
proof (cases "shape g")
  case Nil
  then show ?thesis using assms(1) by (simp add: init_eq)
next
  case (Cons n sp)
  have "length (shape g) \<le> 64"
    using assms(2) by (simp add: ndarray_ok_def NPY_MAXDIMS_def)
  then have is_eq: "py_int_is (int n) (int (length (shape g)) - 1)
      \<longleftrightarrow> int n = int (length (shape g)) - 1"
    by (auto simp: py_int_is_def)
  show ?thesis
    using assms(1) Cons is_eq by (auto simp: init_eq)
qed

text \<open>A grid of shape (2, 3, 3) is accepted, with \<open>ndim = 2\<close>.\<close>

theorem C1_shape_validation_witness:
  "lookup [\<lparr>shape = [2, 3, 3], dtype = Float64, data = replicate 18 0\<rparr>] 0
      = Some \<lparr>shape = [2, 3, 3], dtype = Float64, data = replicate 18 0\<rparr> \<and>
   ndarray_ok \<lparr>shape = [2, 3, 3], dtype = Float64, data = replicate 18 0\<rparr> \<and>
   (\<exists>T h'. BSplineTransformation_init Float32
        [\<lparr>shape = [2, 3, 3], dtype = Float64, data = replicate 18 0\<rparr>] 0 3 ''mirror'' 0
        = Inr (T, h') \<and> ndim T = 2)"
proof -
  let ?g = "\<lparr>shape = [2, 3, 3], dtype = Float64, data = replicate 18 (0::real)\<rparr>"
  have l: "lookup [?g] 0 = Some ?g" by (simp add: lookup_def)
  have k: "ndarray_ok ?g" by (simp add: ndarray_ok_def NPY_MAXDIMS_def)
  show ?thesis
    using C1_shape_validation [OF l k, of Float32 3 "''mirror''" 0] l k by simp
qed

text \<open>
  Claim C1 as stated fails on the scalar grid \<^verbatim>\<open>np.array(5.0)\<close>, of rank 0:
  construction neither succeeds nor fails with \<open>ValueError\<close>.
\<close>

theorem C1_rank0_counterexample:
  "ndarray_ok \<lparr>shape = [], dtype = Float64, data = [5]\<rparr> \<and>
   BSplineTransformation_init Float32 [\<lparr>shape = [], dtype = Float64, data = [5]\<rparr>] 0
      3 ''mirror'' 0 = Inl IndexError"
  by (simp add: init_eq lookup_def ndarray_ok_def NPY_MAXDIMS_def)




text \<open>
  Claim C3. The scenario: grid of shape (2, 3, 3), displacement 0.1 along axis 0 and -0.1
  along axis 1, order 1, mode \<open>mirror\<close>. Construction gives the transform with
  \<open>ndim = 2\<close>; the query point (0.5, 0.5) is rescaled to (1, 1), a node of the grid;
  and with any primitive that returns the stored value of each component at that node,
  as the contract of the spec requires for order 1, the point is mapped to (0.6, 0.4).
\<close>

theorem C3_scenario:
  assumes n0: "mc \<lparr>shape = [3, 3], dtype = DT, data = replicate 9 (1 / 10)\<rparr>
                  \<lparr>a_dtype = DT, ncols = 1, rows = [[1], [1]]\<rparr> 1 ''mirror'' 0 = Inr [1 / 10]"
    and n1: "mc \<lparr>shape = [3, 3], dtype = DT, data = replicate 9 (- 1 / 10)\<rparr>
                  \<lparr>a_dtype = DT, ncols = 1, rows = [[1], [1]]\<rparr> 1 ''mirror'' 0 = Inr [- 1 / 10]"
  shows "BSplineTransformation_init DT [scenario_grid] 0 1 ''mirror'' 0 =
           Inr (scenario_transform, scenario_heap DT) \<and>
         scaled_points DT (scenario_grid\<lparr>dtype := DT\<rparr>) (scenario_point DT) =
           Inr \<lparr>a_dtype = DT, ncols = 1, rows = [[1], [1]]\<rparr> \<and>
         transform_points DT mc (scenario_heap DT) scenario_transform (scenario_point DT) =
           Inr \<lparr>a_dtype = DT, ncols = 1, rows = [[3 / 5], [2 / 5]]\<rparr>"
proof -
  let ?b0 = "\<lparr>shape = [3, 3], dtype = DT, data = replicate 9 (1 / 10 :: real)\<rparr>"
  let ?b1 = "\<lparr>shape = [3, 3], dtype = DT, data = replicate 9 (- 1 / 10 :: real)\<rparr>"
  let ?S = "\<lparr>a_dtype = DT, ncols = 1, rows = [[1 :: real], [1]]\<rparr>"
  define f where "f b = (if b = ?b0 then [1 / 10 :: real] else [- 1 / 10])" for b
  have smp: "\<forall>b\<in>set [?b0, ?b1].
      mc b ?S (bspline_order scenario_transform) (mode scenario_transform)
        (cval scenario_transform) = Inr (f b) \<and> length (f b) = ncols (scenario_point DT)"
    using n0 n1 by (simp add: f_def scenario_transform_def scenario_point_def)
  have "transform_points DT mc (scenario_heap DT) scenario_transform (scenario_point DT) =
     Inr \<lparr>a_dtype = DT, ncols = ncols (scenario_point DT),
          rows = map (\<lambda>i. map (\<lambda>j. rows (scenario_point DT) ! i ! j + f ([?b0, ?b1] ! i) ! j)
                       [0..<ncols (scenario_point DT)]) [0..<2]\<rparr>"
  proof (rule transform_points_eq [where prm = "scenario_grid\<lparr>dtype := DT\<rparr>" and n = 2
        and sp = "[3, 3]" and bs = "[?b0, ?b1]" and S = ?S and f = f])
    show "lookup (scenario_heap DT) (parameters scenario_transform)
        = Some (scenario_grid\<lparr>dtype := DT\<rparr>)"
      by (rule scenario_lookup)
    show "components (scenario_grid\<lparr>dtype := DT\<rparr>) = Inr [?b0, ?b1]"
      by (rule scenario_components)
    show "scaled_points DT (scenario_grid\<lparr>dtype := DT\<rparr>) (scenario_point DT) = Inr ?S"
      by (rule scenario_scaled)
    show "\<forall>b\<in>set [?b0, ?b1].
      mc b ?S (bspline_order scenario_transform) (mode scenario_transform)
        (cval scenario_transform) = Inr (f b) \<and> length (f b) = ncols (scenario_point DT)"
      by (rule smp)
  qed (simp_all add: scenario_grid_def scenario_point_def)
  moreover have "[0..<2] = [0, Suc 0]" by (simp add: upt_rec)
  ultimately have "transform_points DT mc (scenario_heap DT) scenario_transform
      (scenario_point DT) = Inr \<lparr>a_dtype = DT, ncols = 1, rows = [[3 / 5], [2 / 5]]\<rparr>"
    by (simp add: scenario_point_def f_def)
  then show ?thesis
    using scenario_init scenario_scaled by simp
qed

text \<open>
  The primitive of the spec returns the stored values at the node (1, 1).
\<close>

theorem C3_scenario_witness:
  "map_coordinates_order01 \<lparr>shape = [3, 3], dtype = Float32, data = replicate 9 (1 / 10)\<rparr>
      \<lparr>a_dtype = Float32, ncols = 1, rows = [[1], [1]]\<rparr> 1 ''mirror'' 0 = Inr [1 / 10] \<and>
   map_coordinates_order01 \<lparr>shape = [3, 3], dtype = Float32, data = replicate 9 (- 1 / 10)\<rparr>
      \<lparr>a_dtype = Float32, ncols = 1, rows = [[1], [1]]\<rparr> 1 ''mirror'' 0 = Inr [- 1 / 10] \<and>
   transform_points Float32 map_coordinates_order01 (scenario_heap Float32) scenario_transform
      (scenario_point Float32) = Inr \<lparr>a_dtype = Float32, ncols = 1, rows = [[3 / 5], [2 / 5]]\<rparr>"
proof -
  have n0: "map_coordinates_order01 \<lparr>shape = [3, 3], dtype = Float32, data = replicate 9 (1 / 10)\<rparr>
      \<lparr>a_dtype = Float32, ncols = 1, rows = [[1], [1]]\<rparr> 1 ''mirror'' 0 = Inr [1 / 10]"
    by code_simp
  have n1: "map_coordinates_order01 \<lparr>shape = [3, 3], dtype = Float32, data = replicate 9 (- 1 / 10)\<rparr>
      \<lparr>a_dtype = Float32, ncols = 1, rows = [[1], [1]]\<rparr> 1 ''mirror'' 0 = Inr [- 1 / 10]"
    by code_simp
  show ?thesis
    using C3_scenario [where mc = map_coordinates_order01 and DT = Float32, OF n0 n1] n0 n1 by blast
qed

text \<open>
  Claim C4. For a batch with one row for each spatial axis of the grid, the rescaled
  coordinates exist; coordinate \<open>d\<close> of every point is its input value times the length
  of spatial axis \<open>d\<close> less one, so 0 goes to index 0 and 1 to the last index of the
  axis, whatever the resolution. The mapping samples at these rescaled coordinates: when
  the batch has the transform's precision and the grid has a component, a primitive that
  raises at them makes the mapping raise the same error. And it samples nowhere else: two
  primitives that agree at them give the same mapping.
\<close>

theorem C4_rescale:
  assumes prm: "lookup h (parameters T) = Some prm"
    and nr: "length (rows P) = length (tl (shape prm))"
  shows "\<exists>S. scaled_points DT prm P = Inr S \<and>
           length (rows S) = length (rows P) \<and> ncols S = ncols P \<and>
           (\<forall>d<length (rows P). \<forall>j<ncols P.
              rows S ! d ! j = rows P ! d ! j * (real (tl (shape prm) ! d) - 1) \<and>
              (rows P ! d ! j = 0 \<longrightarrow> rows S ! d ! j = 0) \<and>
              (rows P ! d ! j = 1 \<longrightarrow> rows S ! d ! j = real (tl (shape prm) ! d) - 1)) \<and>
           (\<forall>mc e. a_dtype P = DT \<and> shape prm \<noteq> [] \<and> 0 < hd (shape prm) \<and>
              (\<forall>b. mc b S (bspline_order T) (mode T) (cval T) = Inl e)
              \<longrightarrow> transform_points DT mc h T P = Inl e) \<and>
           (\<forall>mc mc'. (\<forall>b k md cv. mc b S k md cv = mc' b S k md cv) \<longrightarrow>
              transform_points DT mc h T P = transform_points DT mc' h T P)"
proof -
  define S where "S = \<lparr>a_dtype = result_type (a_dtype P) DT, ncols = ncols P,
          rows = map (\<lambda>i. map (\<lambda>j. rows P ! i ! j * (real (tl (shape prm) ! i) - 1))
                              [0..<ncols P]) [0..<length (rows P)]\<rparr>"
  have S: "scaled_points DT prm P = Inr S"
    unfolding S_def using nr by (rule scaled_points_eq)
  have same: "transform_points DT mc h T P = transform_points DT mc' h T P"
    if "\<forall>b k md cv. mc b S k md cv = mc' b S k md cv" for mc mc' :: sampler
  proof -
    have "sample_components mc bs S k md cv = sample_components mc' bs S k md cv"
      for bs k md cv
      using that by (intro sample_components_cong) simp
    then show ?thesis
      by (simp add: transform_points_def prm S split: sum.splits)
  qed
  have called: "transform_points DT mc h T P = Inl e"
    if c: "a_dtype P = DT" "shape prm \<noteq> []" "0 < hd (shape prm)"
      "\<forall>b. mc b S (bspline_order T) (mode T) (cval T) = Inl e"
    for e and mc :: sampler
  proof -
    obtain n sp where shp: "shape prm = Suc n # sp"
      using c(2,3) by (cases "shape prm"; cases "hd (shape prm)") auto
    obtain b bs where bs: "components prm = Inr (b # bs)"
      using shp by (auto simp: components_def upt_conv_Cons simp del: upt_Suc)
    show ?thesis
      using c(4) by (simp add: transform_points_def c(1) prm S bs)
  qed
  have "length (rows S) = length (rows P)" "ncols S = ncols P"
    by (simp_all add: S_def)
  moreover have "rows S ! d ! j = rows P ! d ! j * (real (tl (shape prm) ! d) - 1)"
    if "d < length (rows P)" "j < ncols P" for d j
    using that by (simp add: S_def)
  ultimately show ?thesis
    using S same called by (intro exI [of _ S]) simp
qed

text \<open>
  In the scenario the grid has 3 nodes along both axes: the point (0.5, 0.5) is rescaled
  to (1, 1), and a primitive that always raises makes the mapping raise.
\<close>

theorem C4_rescale_witness:
  "lookup (scenario_heap Float32) (parameters scenario_transform)
     = Some (scenario_grid\<lparr>dtype := Float32\<rparr>) \<and>
   length (rows (scenario_point Float32)) = length (tl (shape (scenario_grid\<lparr>dtype := Float32\<rparr>))) \<and>
   (\<exists>S. scaled_points Float32 (scenario_grid\<lparr>dtype := Float32\<rparr>) (scenario_point Float32) = Inr S \<and>
        rows S ! 0 ! 0 = 1 \<and> rows S ! 1 ! 0 = 1) \<and>
   transform_points Float32 (\<lambda>A S k md cv. Inl ConfigError) (scenario_heap Float32)
     scenario_transform (scenario_point Float32) = Inl ConfigError"
proof -
  let ?P = "scenario_point Float32" and ?g = "scenario_grid\<lparr>dtype := Float32\<rparr>"
  have n: "length (rows ?P) = length (tl (shape ?g))"
    by (simp add: scenario_point_def scenario_grid_def)
  from C4_rescale [OF scenario_lookup n, where DT = Float32]
  obtain S where S: "scaled_points Float32 ?g ?P = Inr S"
    and v: "\<forall>d<length (rows ?P). \<forall>j<ncols ?P.
              rows S ! d ! j = rows ?P ! d ! j * (real (tl (shape ?g) ! d) - 1)"
    and c: "\<forall>mc e. a_dtype ?P = Float32 \<and> shape ?g \<noteq> [] \<and> 0 < hd (shape ?g) \<and>
              (\<forall>b. mc b S (bspline_order scenario_transform) (mode scenario_transform)
                 (cval scenario_transform) = Inl e)
              \<longrightarrow> transform_points Float32 mc (scenario_heap Float32) scenario_transform ?P
                  = Inl e"
    by blast
  have "rows S ! 0 ! 0 = rows ?P ! 0 ! 0 * (real (tl (shape ?g) ! 0) - 1)"
    using v by (simp add: scenario_point_def)
  then have v0: "rows S ! 0 ! 0 = 1"
    by (simp add: scenario_point_def scenario_grid_def)
  have "rows S ! 1 ! 0 = rows ?P ! 1 ! 0 * (real (tl (shape ?g) ! 1) - 1)"
    using v by (simp add: scenario_point_def)
  then have v1: "rows S ! 1 ! 0 = 1"
    by (simp add: scenario_point_def scenario_grid_def)
  have pre: "a_dtype ?P = Float32 \<and> shape ?g \<noteq> [] \<and> 0 < hd (shape ?g)"
    by (simp add: scenario_point_def scenario_grid_def)
  have "transform_points Float32 (\<lambda>A S k md cv. Inl ConfigError) (scenario_heap Float32)
     scenario_transform ?P = Inl ConfigError"
    using c [rule_format, of "\<lambda>A S k md cv. Inl ConfigError" ConfigError] pre by simp
  then show ?thesis
    using scenario_lookup [of Float32] n S v0 v1 by blast
qed

text \<open>
  Claim C5. A batch whose element type is not the transform's fixed precision makes the
  mapping fail with \<open>AssertionError\<close> (the spec's PrecisionError), whatever the
  sampling primitive, the store and the transform: no result is returned.
\<close>

theorem C5_precision:
  assumes "a_dtype P \<noteq> DT"
  shows "transform_points DT mc h T P = Inl AssertionError"
  using assms by (simp add: transform_points_def)

text \<open>
  A batch of double precision against a transform of single precision.
\<close>

theorem C5_precision_witness:
  "a_dtype (scenario_point Float64) \<noteq> Float32 \<and>
   transform_points Float32 map_coordinates_order01 (scenario_heap Float32) scenario_transform
     (scenario_point Float64) = Inl AssertionError"
  using C5_precision [of "scenario_point Float64" Float32 map_coordinates_order01
      "scenario_heap Float32" scenario_transform]
  by (simp add: scenario_point_def)

text \<open>
  Claim C6, as amended. When construction fails with \<open>ValueError\<close>, the message is
  the fixed text followed by the expected value, the rank of the grid less one. It names
  that value, and it is the same for all grids of the same rank: the actual length of the
  leading axis is not in it.
\<close>

theorem C6_message:
  assumes "lookup h a = Some g"
    and "BSplineTransformation_init DT h a ord md cv = Inl (ValueError msg)"
  shows "msg = first_axis_message (int (length (shape g)) - 1) \<and>
         contains msg (str_int (int (length (shape g)) - 1)) \<and>
         (\<forall>DT' h' a' g' ord' md' cv' msg'.
            lookup h' a' = Some g' \<and> length (shape g') = length (shape g) \<and>
            BSplineTransformation_init DT' h' a' ord' md' cv' = Inl (ValueError msg')
            \<longrightarrow> msg' = msg)"
proof -
  have m: "msg = first_axis_message (int (length (shape g)) - 1)"
    using assms by (rule init_ValueError)
  have c: "contains (first_axis_message k) (str_int k)" for k
    unfolding first_axis_message_def by (rule contains_middle)
  have r: "msg' = msg"
    if "lookup h' a' = Some g'" "length (shape g') = length (shape g)"
      "BSplineTransformation_init DT' h' a' ord' md' cv' = Inl (ValueError msg')"
    for DT' h' a' g' ord' md' cv' msg'
    using init_ValueError [OF that(1) that(3)] that(2) m by simp
  show ?thesis
    using m c r by blast
qed

text \<open>
  The grid of shape (5, 3, 3) is refused with the message for rank 3.
\<close>

theorem C6_message_witness:
  "lookup [wide_grid 5] 0 = Some (wide_grid 5) \<and>
   BSplineTransformation_init Float32 [wide_grid 5] 0 3 ''mirror'' 0 =
     Inl (ValueError (first_axis_message 2)) \<and>
   first_axis_message 2 = first_axis_message (int (length (shape (wide_grid 5))) - 1) \<and>
   contains (first_axis_message 2) (str_int (int (length (shape (wide_grid 5))) - 1))"
proof -
  have l: "lookup [wide_grid 5] 0 = Some (wide_grid 5)"
    by (simp add: lookup_def)
  have i: "BSplineTransformation_init Float32 [wide_grid 5] 0 3 ''mirror'' 0 =
     Inl (ValueError (first_axis_message 2))"
    by (simp add: wide_grid_refused)
  show ?thesis
    using C6_message [OF l i] l i by blast
qed

text \<open>
  Claim C6 as stated fails: the grids of shape (5, 3, 3) and (7, 3, 3) are refused with
  the same message, which names the expected value 2 and neither 5 nor 7.
\<close>

theorem C6_message_counterexample:
  "BSplineTransformation_init Float32 [wide_grid 5] 0 3 ''mirror'' 0 =
     Inl (ValueError ''First axis of grid should be equal to transform's ndim 2.'') \<and>
   BSplineTransformation_init Float32 [wide_grid 7] 0 3 ''mirror'' 0 =
     Inl (ValueError ''First axis of grid should be equal to transform's ndim 2.'') \<and>
   hd (shape (wide_grid 5)) = 5 \<and> hd (shape (wide_grid 7)) = 7 \<and>
   \<not> contains ''First axis of grid should be equal to transform's ndim 2.'' (str_int 5) \<and>
   \<not> contains ''First axis of grid should be equal to transform's ndim 2.'' (str_int 7)"
  by code_simp

text \<open>
  Claim C7, as amended. Whether construction succeeds, and with which \<open>ndim\<close>,
  parameters and store, does not depend on the order, the boundary mode and the fill
  value: they are stored as given. For a transform with \<open>ndim > 0\<close> and a batch of
  the transform's precision with one row for each axis, a configuration that the sampling
  primitive rejects makes the mapping fail with the primitive's error
  (\<open>ConfigError\<close> for a negative order or an unsupported mode). For the transform with
  \<open>ndim = 0\<close> the primitive is never called: the mapping is the same for every
  primitive and never fails with \<open>ConfigError\<close>.
\<close>

theorem C7_config_validation:
  "(case BSplineTransformation_init DT h a ord md cv of
      Inl e \<Rightarrow> Inl e | Inr (T, h') \<Rightarrow> Inr (ndim T, parameters T, h')) =
   (case BSplineTransformation_init DT h a ord' md' cv' of
      Inl e \<Rightarrow> Inl e | Inr (T, h') \<Rightarrow> Inr (ndim T, parameters T, h')) \<and>
   (\<forall>T h'. BSplineTransformation_init DT h a ord md cv = Inr (T, h') \<longrightarrow>
      bspline_order T = ord \<and> mode T = md \<and> cval T = cv \<and>
      (\<forall>mc P e. 0 < ndim T \<and> a_dtype P = DT \<and> int (length (rows P)) = ndim T \<and>
          (\<forall>A S. mc A S ord md cv = Inl e)
          \<longrightarrow> transform_points DT mc h' T P = Inl e) \<and>
      (ndim T = 0 \<longrightarrow>
         (\<forall>mc mc' P. transform_points DT mc h' T P = transform_points DT mc' h' T P) \<and>
         (\<forall>mc P. transform_points DT mc h' T P \<noteq> Inl ConfigError)))"
proof -
  have rej: "transform_points DT mc h' T P = Inl e"
    if "BSplineTransformation_init DT h a ord md cv = Inr (T, h')"
      and "0 < ndim T" "a_dtype P = DT" "int (length (rows P)) = ndim T"
      and "\<forall>A S. mc A S ord md cv = Inl e"
    for T h' P e and mc :: sampler
  proof -
    have ok: "transform_ok DT h' T" and cfg: "bspline_order T = ord" "mode T = md" "cval T = cv"
      using init_transform_ok [OF that(1)] by simp_all
    show ?thesis
      using that(5) by (intro transform_points_reject [OF ok that(2,3,4)]) (simp add: cfg)
  qed
  have none: "(\<forall>mc mc' P. transform_points DT mc h' T P = transform_points DT mc' h' T P) \<and>
         (\<forall>mc P. transform_points DT mc h' T P \<noteq> Inl ConfigError)"
    if "BSplineTransformation_init DT h a ord md cv = Inr (T, h')" and "ndim T = 0"
    for T h'
  proof -
    have ok: "transform_ok DT h' T"
      using init_transform_ok [OF that(1)] by simp
    show ?thesis
      using transform_points_no_axes [OF ok that(2)] by blast
  qed
  show ?thesis
    using init_config_free [of DT h a ord md cv ord' md' cv'] init_transform_ok [of DT h a ord md cv]
      rej none
    by blast
qed

text \<open>
  Construction with the mode \<open>bogus\<close>, and with the order -1, succeeds; the
  mapping then fails with \<open>ConfigError\<close>.
\<close>

theorem C7_config_validation_witness:
  "BSplineTransformation_init Float32 [scenario_grid] 0 3 ''bogus'' 0 =
     Inr (scenario_transform\<lparr>bspline_order := 3, mode := ''bogus''\<rparr>, scenario_heap Float32) \<and>
   (\<forall>A S. map_coordinates_order01 A S 3 ''bogus'' 0 = Inl ConfigError) \<and>
   transform_points Float32 map_coordinates_order01 (scenario_heap Float32)
     (scenario_transform\<lparr>bspline_order := 3, mode := ''bogus''\<rparr>) (scenario_point Float32)
     = Inl ConfigError \<and>
   BSplineTransformation_init Float32 [scenario_grid] 0 (- 1) ''mirror'' 0 =
     Inr (scenario_transform\<lparr>bspline_order := - 1\<rparr>, scenario_heap Float32) \<and>
   (\<forall>A S. map_coordinates_order01 A S (- 1) ''mirror'' 0 = Inl ConfigError) \<and>
   transform_points Float32 map_coordinates_order01 (scenario_heap Float32)
     (scenario_transform\<lparr>bspline_order := - 1\<rparr>) (scenario_point Float32)
     = Inl ConfigError"
proof -
  let ?T = "scenario_transform\<lparr>bspline_order := 3, mode := ''bogus''\<rparr>"
  let ?U = "scenario_transform\<lparr>bspline_order := - 1\<rparr>"
  have i: "BSplineTransformation_init Float32 [scenario_grid] 0 3 ''bogus'' 0 =
     Inr (?T, scenario_heap Float32)"
    by (simp add: init_eq lookup_def scenario_grid_def scenario_transform_def scenario_heap_def
        py_int_is_def)
  have j: "BSplineTransformation_init Float32 [scenario_grid] 0 (- 1) ''mirror'' 0 =
     Inr (?U, scenario_heap Float32)"
    by (simp add: init_eq lookup_def scenario_grid_def scenario_transform_def scenario_heap_def
        py_int_is_def)
  have r: "\<forall>A S. map_coordinates_order01 A S 3 ''bogus'' 0 = Inl ConfigError"
    by (simp add: map_coordinates_order01_def boundary_modes_def)
  have q: "\<forall>A S. map_coordinates_order01 A S (- 1) ''mirror'' 0 = Inl ConfigError"
    by (simp add: map_coordinates_order01_def)
  have p: "0 < ndim ?T \<and> a_dtype (scenario_point Float32) = Float32 \<and>
      int (length (rows (scenario_point Float32))) = ndim ?T"
    "0 < ndim ?U \<and> a_dtype (scenario_point Float32) = Float32 \<and>
      int (length (rows (scenario_point Float32))) = ndim ?U"
    by (simp_all add: scenario_transform_def scenario_point_def)
  have "transform_points Float32 map_coordinates_order01 (scenario_heap Float32) ?T
      (scenario_point Float32) = Inl ConfigError"
    using C7_config_validation [of Float32 "[scenario_grid]" 0 3 "''bogus''" 0 3 "''bogus''" 0]
      i r p(1) by blast
  moreover have "transform_points Float32 map_coordinates_order01 (scenario_heap Float32) ?U
      (scenario_point Float32) = Inl ConfigError"
    using C7_config_validation [of Float32 "[scenario_grid]" 0 "- 1" "''mirror''" 0
        "- 1" "''mirror''" 0]
      j q p(2) by blast
  ultimately show ?thesis
    using i j r q by blast
qed

text \<open>
  Claim C7 as stated fails on the transform without axes: constructed from the grid of
  shape (0,) with the mode \<open>bogus\<close>, it maps the empty batch to
  \<open>AssertionError\<close> in single precision and to the empty batch in double precision,
  not to \<open>ConfigError\<close>. With the same mode on the scenario grid, a batch of another
  precision ends in \<open>AssertionError\<close> and a batch with three rows in the
  broadcasting error, before any sampling.
\<close>

theorem C7_no_axes_counterexample:
  "BSplineTransformation_init Float32 [empty_grid] 0 3 ''bogus'' 0 =
     Inr (empty_transform ''bogus'', empty_heap Float32) \<and>
   transform_points Float32 map_coordinates_order01 (empty_heap Float32)
     (empty_transform ''bogus'') (no_axes_batch Float32 0) = Inl AssertionError \<and>
   BSplineTransformation_init Float64 [empty_grid] 0 3 ''bogus'' 0 =
     Inr (empty_transform ''bogus'', empty_heap Float64) \<and>
   transform_points Float64 map_coordinates_order01 (empty_heap Float64)
     (empty_transform ''bogus'') (no_axes_batch Float64 0) = Inr (no_axes_batch Float64 0) \<and>
   transform_points Float32 map_coordinates_order01 (scenario_heap Float32)
     (scenario_transform\<lparr>bspline_order := 3, mode := ''bogus''\<rparr>) (scenario_point Float64)
     = Inl AssertionError \<and>
   transform_points Float32 map_coordinates_order01 (scenario_heap Float32)
     (scenario_transform\<lparr>bspline_order := 3, mode := ''bogus''\<rparr>)
     \<lparr>a_dtype = Float32, ncols = 1, rows = [[1 / 2], [1 / 2], [1 / 2]]\<rparr>
     = Inl (ValueError ''operands could not be broadcast together'')"
  by code_simp

text \<open>
  Claim C8, as amended. For a transform in the documented format with \<open>ndim > 0\<close>,
  a batch of the transform's precision with one row for each axis, and a sampling primitive
  that returns one value for each point on every component, the mapping returns a batch of
  the same precision with the same number of points (columns) and of axes (rows); every
  coordinate is the input coordinate plus the value sampled for its axis and point, where
  component \<open>i\<close> is the \<open>i\<close>-th sub-array of the grid, sampled at the rescaled
  coordinates. The empty batch is the case of no columns.
\<close>

theorem C8_batch:
  assumes ok: "transform_ok DT h T" and pos: "0 < ndim T"
    and dt: "a_dtype P = DT" and nr: "int (length (rows P)) = ndim T"
    and prm: "lookup h (parameters T) = Some prm"
    and bs: "components prm = Inr bs" and S: "scaled_points DT prm P = Inr S"
    and smp: "\<forall>b\<in>set bs. \<exists>d. mc b S (bspline_order T) (mode T) (cval T) = Inr d
                \<and> length d = ncols P"
  shows "\<exists>R. transform_points DT mc h T P = Inr R \<and>
           a_dtype R = a_dtype P \<and> ncols R = ncols P \<and>
           length (rows R) = length (rows P) \<and> array2_ok R \<and>
           (\<forall>i<length (rows P). \<forall>j<ncols P.
              \<exists>d. mc (bs ! i) S (bspline_order T) (mode T) (cval T) = Inr d \<and>
                  rows R ! i ! j = rows P ! i ! j + d ! j) \<and>
           length bs = length (rows P) \<and>
           (\<forall>i<length (rows P).
              bs ! i = \<lparr>shape = tl (shape prm), dtype = DT,
                        data = take (prod_list (tl (shape prm)))
                                 (drop (i * prod_list (tl (shape prm))) (data prm))\<rparr>) \<and>
           (\<forall>i<length (rows P). \<forall>j<ncols P.
              rows S ! i ! j = rows P ! i ! j * (real (tl (shape prm) ! i) - 1))"
proof -
  obtain n sp where shp: "shape prm = n # sp" "ndim T = int n" "length sp = n"
    and pdt: "dtype prm = DT"
    using transform_ok_shape [OF ok prm] by blast
  have n: "0 < n" "length (rows P) = n"
    using pos nr shp(2) by simp_all
  have len: "length bs = n"
    using bs shp(1) by (auto simp: components_def)
  have comp: "bs ! i = \<lparr>shape = tl (shape prm), dtype = DT,
                        data = take (prod_list (tl (shape prm)))
                                 (drop (i * prod_list (tl (shape prm))) (data prm))\<rparr>"
    if "i < length (rows P)" for i
    using that bs shp(1) n(2) pdt by (auto simp: components_def)
  have "scaled_points DT prm P =
     Inr \<lparr>a_dtype = result_type (a_dtype P) DT, ncols = ncols P,
          rows = map (\<lambda>i. map (\<lambda>j. rows P ! i ! j * (real (tl (shape prm) ! i) - 1))
                              [0..<ncols P]) [0..<length (rows P)]\<rparr>"
    using n(2) shp by (intro scaled_points_eq) simp
  then have scl: "rows S ! i ! j = rows P ! i ! j * (real (tl (shape prm) ! i) - 1)"
    if "i < length (rows P)" "j < ncols P" for i j
    using S that by auto
  obtain f where f: "\<forall>b\<in>set bs. mc b S (bspline_order T) (mode T) (cval T) = Inr (f b)
      \<and> length (f b) = ncols P"
    using bchoice [OF smp] by blast
  define R where "R = \<lparr>a_dtype = DT, ncols = ncols P,
      rows = map (\<lambda>i. map (\<lambda>j. rows P ! i ! j + f (bs ! i) ! j) [0..<ncols P]) [0..<n]\<rparr>"
  have R: "transform_points DT mc h T P = Inr R"
    unfolding R_def
    by (rule transform_points_eq [where f = f and mc = mc and S = S and bs = bs and T = T,
          OF prm shp(1) shp(3) n(1) pdt dt n(2) bs S f])
  have okR: "array2_ok R"
    by (simp add: R_def array2_ok_def list_all_iff)
  have ent: "\<exists>d. mc (bs ! i) S (bspline_order T) (mode T) (cval T) = Inr d \<and>
                  rows R ! i ! j = rows P ! i ! j + d ! j"
    if "i < length (rows P)" "j < ncols P" for i j
  proof -
    have "bs ! i \<in> set bs" using that(1) n(2) len by simp
    then have "mc (bs ! i) S (bspline_order T) (mode T) (cval T) = Inr (f (bs ! i))"
      using f by blast
    moreover have "rows R ! i ! j = rows P ! i ! j + f (bs ! i) ! j"
      using that n(2) by (simp add: R_def)
    ultimately show ?thesis by blast
  qed
  have "a_dtype R = a_dtype P" "ncols R = ncols P" "length (rows R) = length (rows P)"
    "length bs = length (rows P)"
    using dt n(2) len by (simp_all add: R_def)
  then show ?thesis
    using R okR ent comp scl by blast
qed

text \<open>
  The scenario: one point in, one point out, in single precision.
\<close>

theorem C8_batch_witness:
  "transform_ok Float32 (scenario_heap Float32) scenario_transform \<and>
   0 < ndim scenario_transform \<and>
   a_dtype (scenario_point Float32) = Float32 \<and>
   int (length (rows (scenario_point Float32))) = ndim scenario_transform \<and>
   (\<exists>R. transform_points Float32 map_coordinates_order01 (scenario_heap Float32) scenario_transform
           (scenario_point Float32) = Inr R \<and>
        a_dtype R = Float32 \<and> ncols R = 1 \<and> length (rows R) = 2)"
proof -
  let ?b0 = "\<lparr>shape = [3, 3], dtype = Float32, data = replicate 9 (1 / 10 :: real)\<rparr>"
  let ?b1 = "\<lparr>shape = [3, 3], dtype = Float32, data = replicate 9 (- 1 / 10 :: real)\<rparr>"
  let ?S = "\<lparr>a_dtype = Float32, ncols = 1, rows = [[1 :: real], [1]]\<rparr>"
  have n0: "map_coordinates_order01 ?b0 ?S 1 ''mirror'' 0 = Inr [1 / 10]"
    by code_simp
  have n1: "map_coordinates_order01 ?b1 ?S 1 ''mirror'' 0 = Inr [- 1 / 10]"
    by code_simp
  have p: "0 < ndim scenario_transform" "a_dtype (scenario_point Float32) = Float32"
    "int (length (rows (scenario_point Float32))) = ndim scenario_transform"
    by (simp_all add: scenario_transform_def scenario_point_def)
  have smp: "\<forall>b\<in>set [?b0, ?b1]. \<exists>d. map_coordinates_order01 b ?S (bspline_order scenario_transform)
      (mode scenario_transform) (cval scenario_transform) = Inr d \<and>
      length d = ncols (scenario_point Float32)"
    using n0 n1 by (simp add: scenario_transform_def scenario_point_def)
  from C8_batch [where mc = map_coordinates_order01 and S = ?S and bs = "[?b0, ?b1]",
      OF scenario_ok p scenario_lookup scenario_components scenario_scaled smp]
  obtain R where "transform_points Float32 map_coordinates_order01 (scenario_heap Float32)
      scenario_transform (scenario_point Float32) = Inr R"
    "a_dtype R = a_dtype (scenario_point Float32)" "ncols R = ncols (scenario_point Float32)"
    "length (rows R) = length (rows (scenario_point Float32))"
    by blast
  then have "\<exists>R. transform_points Float32 map_coordinates_order01 (scenario_heap Float32)
      scenario_transform (scenario_point Float32) = Inr R \<and>
        a_dtype R = Float32 \<and> ncols R = 1 \<and> length (rows R) = 2"
    by (simp add: scenario_point_def)
  then show ?thesis
    using scenario_ok [of Float32] p by blast
qed

text \<open>
  Claim C8 as stated fails on the transform without axes, made of the grid of shape (0,):
  a batch of one point in single precision ends in \<open>AssertionError\<close>, since the
  empty displacement array is of double precision; in double precision the batch of one
  point comes back without points, and the batch of two points ends in the broadcasting
  error.
\<close>

theorem C8_no_axes_counterexample:
  "BSplineTransformation_init Float32 [empty_grid] 0 3 ''mirror'' 0 =
     Inr (empty_transform ''mirror'', empty_heap Float32) \<and>
   a_dtype (no_axes_batch Float32 1) = Float32 \<and>
   transform_points Float32 map_coordinates_order01 (empty_heap Float32)
     (empty_transform ''mirror'') (no_axes_batch Float32 1) = Inl AssertionError \<and>
   BSplineTransformation_init Float64 [empty_grid] 0 3 ''mirror'' 0 =
     Inr (empty_transform ''mirror'', empty_heap Float64) \<and>
   ncols (no_axes_batch Float64 1) = 1 \<and>
   transform_points Float64 map_coordinates_order01 (empty_heap Float64)
     (empty_transform ''mirror'') (no_axes_batch Float64 1) = Inr (no_axes_batch Float64 0) \<and>
   transform_points Float64 map_coordinates_order01 (empty_heap Float64)
     (empty_transform ''mirror'') (no_axes_batch Float64 2)
     = Inl (ValueError ''operands could not be broadcast together'')"
  by code_simp

text \<open>
  Claim C9. Construction stores a copy of the caller's grid under a new reference and
  leaves the caller's array as it is. The mapping reads the store at the reference of the
  parameters only: overwriting the caller's array afterwards, or changing the store
  anywhere else, changes no result. Mapping any sequence of batches leaves the store and
  the transform, with its order, mode and fill value, as they were.
\<close>

theorem C9_ownership:
  assumes g: "lookup h a = Some g"
    and init: "BSplineTransformation_init DT h a ord md cv = Inr (T, h')"
  shows "parameters T \<noteq> a \<and>
         lookup h' (parameters T) = Some (g\<lparr>dtype := DT\<rparr>) \<and>
         lookup h' a = Some g \<and>
         (\<forall>g' P. transform_points DT mc (h'[a := g']) T P = transform_points DT mc h' T P) \<and>
         (\<forall>h'' P. lookup h'' (parameters T) = lookup h' (parameters T) \<longrightarrow>
            transform_points DT mc h'' T P = transform_points DT mc h' T P) \<and>
         (\<forall>Ps. map_batches DT mc (h', T) Ps =
                 (map (transform_points DT mc h' T) Ps, (h', T)))"
proof -
  have a: "a < length h" using g by (rule lookup_Some_less)
  have T: "parameters T = length h" and h': "h' = h @ [g\<lparr>dtype := DT\<rparr>]"
    using init_Inr [OF g init] by simp_all
  have 1: "parameters T \<noteq> a" using a T by simp
  have 2: "lookup h' (parameters T) = Some (g\<lparr>dtype := DT\<rparr>)"
    unfolding T h' by (rule lookup_alloc_new)
  have 3: "lookup h' a = Some g"
    using a g by (simp add: h' lookup_def nth_append)
  have upd: "lookup (h'[a := g']) (parameters T) = lookup h' (parameters T)" for g'
    using 1 by (simp add: lookup_def)
  have 4: "transform_points DT mc (h'[a := g']) T P = transform_points DT mc h' T P" for g' P
    using upd by (rule transform_points_frame)
  show ?thesis
    using 1 2 3 4 transform_points_frame map_batches_eq by blast
qed

text \<open>
  After construction from the scenario grid, the caller's array is overwritten with
  zeros: the point is mapped as before.
\<close>

theorem C9_ownership_witness:
  "lookup [scenario_grid] 0 = Some scenario_grid \<and>
   BSplineTransformation_init Float32 [scenario_grid] 0 1 ''mirror'' 0 =
     Inr (scenario_transform, scenario_heap Float32) \<and>
   parameters scenario_transform \<noteq> 0 \<and>
   transform_points Float32 map_coordinates_order01 ((scenario_heap Float32)[0 := wide_grid 2])
       scenario_transform (scenario_point Float32) =
     transform_points Float32 map_coordinates_order01 (scenario_heap Float32)
       scenario_transform (scenario_point Float32)"
proof -
  have l: "lookup [scenario_grid] 0 = Some scenario_grid"
    by (simp add: lookup_def)
  have i: "BSplineTransformation_init Float32 [scenario_grid] 0 1 ''mirror'' 0 =
     Inr (scenario_transform, scenario_heap Float32)"
    by (rule scenario_init)
  show ?thesis
    using C9_ownership [OF l i, where mc = map_coordinates_order01] l i by blast
qed

text \<open>
  Claim C10. Construction does not make \<open>ndim\<close> positive: the grid of shape (0,) has
  rank 1 and a leading axis of length 0, so it is accepted, and the transform has
  \<open>ndim = 0\<close> and an empty parameter array.
\<close>

theorem C10_degenerate_grid:
  "BSplineTransformation_init DT [\<lparr>shape = [0], dtype = dt, data = []\<rparr>] 0 ord md cv =
     Inr (\<lparr>ndim = 0, parameters = 1, bspline_order = ord, mode = md, cval = cv\<rparr>,
          [\<lparr>shape = [0], dtype = dt, data = []\<rparr>, \<lparr>shape = [0], dtype = DT, data = []\<rparr>])"
  by (simp add: init_eq lookup_def py_int_is_def)

end
